theory Spec2Isabelle
  imports Main "HOL-Library.Word"
begin

section \<open>Severity levels\<close>

text \<open>
  \<^verbatim>\<open>type LogLevel int\<close> with the constants \<^verbatim>\<open>TRACE .. FATAL\<close> numbered by
  \<^verbatim>\<open>iota\<close>. Go's \<^verbatim>\<open>int\<close> is a signed machine integer; it is taken at 64 bits.
  No arithmetic is done on levels, so the width only bounds the range of custom levels.
\<close>

type_synonym LogLevel = "64 word"

definition TRACE :: LogLevel where "TRACE = 0"
definition DEBUG :: LogLevel where "DEBUG = 1"
definition INFO :: LogLevel where "INFO = 2"
definition WARN :: LogLevel where "WARN = 3"
definition ERROR :: LogLevel where "ERROR = 4"
definition FATAL :: LogLevel where "FATAL = 5"

definition LogLevels :: "LogLevel list" where
  "LogLevels = [TRACE, DEBUG, INFO, WARN, ERROR, FATAL]"

text \<open>\<^verbatim>\<open>return int(level) < int(level2)\<close>: a signed comparison of the two values.\<close>

definition LessSevereThan :: "LogLevel \<Rightarrow> LogLevel \<Rightarrow> bool" where
  "LessSevereThan level level2 = (sint level < sint level2)"

text \<open>
  \<^verbatim>\<open>String\<close>: the \<^verbatim>\<open>switch\<close> over the six constants, in the order of the source,
  and the \<^verbatim>\<open>return "CUSTOM"\<close> after it.
\<close>

definition level_String :: "LogLevel \<Rightarrow> string" where
  "level_String level =
     (if level = TRACE then ''TRACE''
      else if level = DEBUG then ''DEBUG''
      else if level = INFO then ''INFO''
      else if level = WARN then ''WARN''
      else if level = ERROR then ''ERROR''
      else if level = FATAL then ''FATAL''
      else ''CUSTOM'')"

section \<open>The formatting and string functions the code calls\<close>

text \<open>
  The operands the repository passes to \<^verbatim>\<open>fmt\<close>: strings, ints and \<^verbatim>\<open>error\<close> values
  (an error is carried by the text of its \<^verbatim>\<open>Error()\<close> method).
\<close>

datatype farg = AString string | AInt int | AError string

definition digit_char :: "nat \<Rightarrow> char" where
  "digit_char n = ''0123456789'' ! (n mod 10)"

fun nat_decimal :: "nat \<Rightarrow> string" where
  "nat_decimal n =
     (if n < 10 then [digit_char n] else nat_decimal (n div 10) @ [digit_char n])"

declare nat_decimal.simps [simp del]

text \<open>\<^verbatim>\<open>%d\<close> on an \<^verbatim>\<open>int\<close>: the decimal digits, with a minus sign below zero.\<close>

definition fmt_d :: "int \<Rightarrow> string" where
  "fmt_d i = (if i < 0 then CHR ''-'' # nat_decimal (nat (- i)) else nat_decimal (nat i))"

text \<open>
  One directive \<^verbatim>\<open>%verb\<close> applied to one operand, for the verbs and operand types the
  repository uses: \<^verbatim>\<open>%s\<close> on a string or an error, \<^verbatim>\<open>%d\<close> on an int, \<^verbatim>\<open>%v\<close> on any
  of them. \<open>None\<close> stands for a directive outside this fragment of \<^verbatim>\<open>fmt\<close>.
\<close>

definition fmt_verb :: "char \<Rightarrow> farg \<Rightarrow> string option" where
  "fmt_verb verb a =
     (if verb = CHR ''s'' then (case a of AString s \<Rightarrow> Some s | AError e \<Rightarrow> Some e | AInt _ \<Rightarrow> None)
      else if verb = CHR ''d'' then (case a of AInt i \<Rightarrow> Some (fmt_d i) | _ \<Rightarrow> None)
      else if verb = CHR ''v'' then
        (case a of AString s \<Rightarrow> Some s | AError e \<Rightarrow> Some e | AInt i \<Rightarrow> Some (fmt_d i))
      else None)"

text \<open>
  \<^verbatim>\<open>fmt.Sprintf\<close> on that fragment: text outside directives is copied, \<^verbatim>\<open>%%\<close> is a
  percent sign, and each directive takes the next operand. A format that leaves the
  fragment (another verb, a flag, a width, a missing or a surplus operand) gives \<open>None\<close>:
  the model says nothing about it. Every call of the repository with a constant format
  stays inside.
\<close>

fun fmt_Sprintf :: "string \<Rightarrow> farg list \<Rightarrow> string option" where
  "fmt_Sprintf [] a = (if a = [] then Some [] else None)"
| "fmt_Sprintf [c] a =
     (if c = CHR ''%'' then None else map_option ((#) c) (fmt_Sprintf [] a))"
| "fmt_Sprintf (c # verb # format) a =
     (if c \<noteq> CHR ''%'' then map_option ((#) c) (fmt_Sprintf (verb # format) a)
      else if verb = CHR ''%'' then map_option ((#) CHR ''%'') (fmt_Sprintf format a)
      else (case a of
              [] \<Rightarrow> None
            | x # rest \<Rightarrow>
                (case fmt_verb verb x of
                   None \<Rightarrow> None
                 | Some s \<Rightarrow> map_option ((@) s) (fmt_Sprintf format rest))))"

text \<open>\<^verbatim>\<open>strings.Join(elems, sep)\<close>: the elements with \<open>sep\<close> between neighbours.\<close>

fun strings_Join :: "string list \<Rightarrow> string \<Rightarrow> string" where
  "strings_Join [] sep = []"
| "strings_Join [e] sep = e"
| "strings_Join (e # e' # elems) sep = e @ sep @ strings_Join (e' # elems) sep"

section \<open>The log record\<close>

text \<open>
  \<^verbatim>\<open>LogPayload\<close>, field by field. \<^verbatim>\<open>time.Time\<close> and \<^verbatim>\<open>time.Duration\<close> are integers
  (an instant and a span in nanoseconds); a \<^verbatim>\<open>nil\<close> slice and an empty one are both
  \<open>[]\<close>. The methods have pointer receivers and update the record in place; they are
  given here on the record value and return the updated one.
\<close>

record LogPayload =
  Level :: LogLevel
  Message :: string
  Action :: string
  Application :: string
  PID :: int
  Time :: int
  HostName :: string
  Tags :: "string list"
  Name :: string
  UUID :: string
  Table :: string
  Backtrace :: "string list"
  Duration :: int
  ThreadName :: string

text \<open>The zero value of the struct, which a freshly allocated payload has.\<close>

definition LogPayload_zero :: LogPayload where
  "LogPayload_zero =
     \<lparr>Level = 0, Message = [], Action = [], Application = [], PID = 0, Time = 0,
      HostName = [], Tags = [], Name = [], UUID = [], Table = [], Backtrace = [],
      Duration = 0, ThreadName = []\<rparr>"

definition Exception :: "LogPayload \<Rightarrow> string option" where
  "Exception payload =
     (let formatStr = ''%s -- %s: %s\<newline>%s'';
          backtrace = strings_Join (Backtrace payload) ''\<newline>''
      in fmt_Sprintf formatStr
           [AString (Message payload), AString ''panic'', AString (Message payload),
            AString backtrace])"

definition SetTags :: "string list \<Rightarrow> LogPayload \<Rightarrow> LogPayload" where
  "SetTags tags payload = payload\<lparr>Tags := tags\<rparr>"

section \<open>Panics and the process environment\<close>

text \<open>
  A payload is handled through a pointer: an address into a heap of payloads. What a
  panic carries is either such a pointer (\<^verbatim>\<open>panic(payload)\<close>), the run-time error of an
  index out of range, or anything else a sink may raise.
\<close>

type_synonym addr = nat

datatype panic_value = PanicPayload addr | PanicIndexOutOfRange | PanicOther string

datatype outcome = Returned | Panicked panic_value

text \<open>
  What \<^verbatim>\<open>setKnownFields\<close> reads from the process: \<^verbatim>\<open>os.Args\<close>, \<^verbatim>\<open>os.Getpid()\<close>,
  \<^verbatim>\<open>time.Now()\<close> and the two results of \<^verbatim>\<open>os.Hostname()\<close> (the name, and the error or
  \<^verbatim>\<open>nil\<close>).
\<close>

record os_env =
  os_Args :: "string list"
  os_Getpid :: int
  time_Now :: int
  os_Hostname :: "string \<times> string option"

text \<open>
  \<^verbatim>\<open>setKnownFields\<close>. \<^verbatim>\<open>os.Args[0]\<close> is an indexing and panics on an empty
  \<^verbatim>\<open>os.Args\<close>. The call \<^verbatim>\<open>log.Printf(format, err)\<close> to the standard logger is returned
  beside the payload, as the format and its operands.
\<close>

definition setKnownFields ::
  "os_env \<Rightarrow> LogPayload \<Rightarrow> panic_value + LogPayload \<times> (string \<times> farg list) list" where
  "setKnownFields env payload =
     (case (if Application payload = []
            then (case os_Args env of
                    [] \<Rightarrow> Inl PanicIndexOutOfRange
                  | arg0 # _ \<Rightarrow> Inr (payload\<lparr>Application := arg0\<rparr>))
            else Inr payload) of
        Inl e \<Rightarrow> Inl e
      | Inr p1 \<Rightarrow>
          (let p2 = p1\<lparr>PID := os_Getpid env\<rparr>;
               p3 = p2\<lparr>Time := time_Now env\<rparr>;
               (hostname, err) = os_Hostname env;
               printed = (case err of
                            None \<Rightarrow> []
                          | Some e \<Rightarrow> [(''Error getting hostname: %v\<newline>'', [AError e])])
           in Inr (p3\<lparr>HostName := hostname\<rparr>, printed)))"

section \<open>Stack introspection\<close>

text \<open>
  The run-time stack as \<^verbatim>\<open>runtime.Caller\<close> sees it from inside the function that calls
  it: frame 0 is that function, frame 1 its caller, and so on up to the entry of the
  program. \<^verbatim>\<open>Caller(skip)\<close> reports \<^verbatim>\<open>ok = false\<close> once \<open>skip\<close> is past the last frame.
  The fields of a frame are the results \<^verbatim>\<open>pc\<close>, \<^verbatim>\<open>file\<close> and \<^verbatim>\<open>line\<close> of \<^verbatim>\<open>Caller\<close>.
  \<^verbatim>\<open>FuncForPC\<close> is a table from program counters to function names; \<^verbatim>\<open>Name\<close> of the
  \<^verbatim>\<open>nil\<close> function is the empty string.
\<close>

record Frame =
  fr_pc :: nat
  fr_file :: string
  fr_line :: int

record runtime =
  stack :: "Frame list"
  funcs :: "nat \<rightharpoonup> string"

definition runtime_Caller :: "runtime \<Rightarrow> nat \<Rightarrow> Frame option" where
  "runtime_Caller rt skip = (if skip < length (stack rt) then Some (stack rt ! skip) else None)"

definition runtime_FuncForPC :: "runtime \<Rightarrow> nat \<Rightarrow> string option" where
  "runtime_FuncForPC rt p = funcs rt p"

definition Func_Name :: "string option \<Rightarrow> string" where
  "Func_Name f = (case f of None \<Rightarrow> [] | Some n \<Rightarrow> n)"

text \<open>
  \<^verbatim>\<open>genStacktrace\<close>: the loop \<^verbatim>\<open>for skip := 1; ; skip++\<close> has no bound of its own and
  leaves by \<^verbatim>\<open>break\<close> when \<^verbatim>\<open>Caller\<close> fails. It ends because the stack is finite.
\<close>

function genStacktrace_loop :: "runtime \<Rightarrow> nat \<Rightarrow> string list \<Rightarrow> string list option" where
  "genStacktrace_loop rt skip stacktrace =
     (case runtime_Caller rt skip of
        None \<Rightarrow> Some stacktrace
      | Some fr \<Rightarrow>
          (let f = runtime_FuncForPC rt (fr_pc fr)
           in case fmt_Sprintf ''%s:%d %s()\<newline>''
                     [AString (fr_file fr), AInt (fr_line fr), AString (Func_Name f)] of
                None \<Rightarrow> None
              | Some traceLine \<Rightarrow> genStacktrace_loop rt (Suc skip) (stacktrace @ [traceLine])))"
  by pat_completeness auto
termination
  by (relation "measure (\<lambda>(rt, skip, stacktrace). length (stack rt) - skip)")
     (auto simp: runtime_Caller_def split: if_splits)

declare genStacktrace_loop.simps [simp del]

definition genStacktrace :: "runtime \<Rightarrow> string list option" where
  "genStacktrace rt = genStacktrace_loop rt 1 []"

section \<open>Sinks and the dispatcher\<close>

text \<open>
  \<^verbatim>\<open>SemanticLogger\<close> is an interface: a sink is any three methods of these types. A method
  acts on the world \<open>'w\<close> (the heap of payloads and whatever else sinks write to) and
  either returns or panics; \<open>'f\<close> is the type of the function handed to
  \<^verbatim>\<open>BenchmarkInfo\<close>. A \<^verbatim>\<open>nil\<close> sink is a sink whose methods panic at once.
\<close>

record ('w, 'f) SemanticLogger =
  sl_Log :: "addr \<Rightarrow> 'w \<Rightarrow> outcome \<times> 'w"
  sl_Fatal :: "addr \<Rightarrow> 'w \<Rightarrow> outcome \<times> 'w"
  sl_BenchmarkInfo :: "LogLevel \<Rightarrow> string \<Rightarrow> 'f \<Rightarrow> 'w \<Rightarrow> outcome \<times> 'w"

text \<open>
  The calls the dispatcher makes on its sinks are recorded as they happen: which method,
  on the sink at which position, with which payload pointer.
\<close>

datatype call = CallLog nat addr | CallFatal nat addr | CallBenchmarkInfo nat LogLevel string

record 'w exec =
  calls :: "call list"
  world :: 'w

type_synonym ('w, 'f) MultiSemanticLogger = "('w, 'f) SemanticLogger list"

definition NewMultiSemanticLogger ::
  "('w, 'f) SemanticLogger list \<Rightarrow> ('w, 'f) MultiSemanticLogger" where
  "NewMultiSemanticLogger loggers = loggers"

text \<open>
  \<^verbatim>\<open>for _, lgr := range ml { lgr.Log(payload) }\<close>, from position \<open>i\<close> on. A panic of
  a sink is not recovered: it ends the loop and goes to the caller.
\<close>

fun range_Log ::
  "('w, 'f) SemanticLogger list \<Rightarrow> nat \<Rightarrow> addr \<Rightarrow> 'w exec \<Rightarrow> outcome \<times> 'w exec" where
  "range_Log [] i payload s = (Returned, s)"
| "range_Log (lgr # rest) i payload s =
     (case sl_Log lgr payload (world s) of
        (Returned, w) \<Rightarrow>
          range_Log rest (Suc i) payload \<lparr>calls = calls s @ [CallLog i payload], world = w\<rparr>
      | (Panicked v, w) \<Rightarrow>
          (Panicked v, \<lparr>calls = calls s @ [CallLog i payload], world = w\<rparr>))"

text \<open>
  \<^verbatim>\<open>Log\<close>: the \<^verbatim>\<open>default\<close> clause falls through into the clause of the six standard
  levels, so both ways run the loop.
\<close>

definition ml_Log ::
  "('w, 'f) MultiSemanticLogger \<Rightarrow> LogLevel \<Rightarrow> string \<Rightarrow> addr \<Rightarrow> 'w exec \<Rightarrow> outcome \<times> 'w exec" where
  "ml_Log ml level msg payload s =
     (if level = TRACE \<or> level = DEBUG \<or> level = INFO \<or> level = WARN \<or> level = ERROR
         \<or> level = FATAL
      then range_Log ml 0 payload s
      else range_Log ml 0 payload s)"

text \<open>
  \<^verbatim>\<open>Fatal\<close>: the \<^verbatim>\<open>switch\<close> has the clause of the six standard levels and no
  \<^verbatim>\<open>default\<close>; \<^verbatim>\<open>panic(payload)\<close> follows it.
\<close>

definition ml_Fatal ::
  "('w, 'f) MultiSemanticLogger \<Rightarrow> LogLevel \<Rightarrow> string \<Rightarrow> addr \<Rightarrow> 'w exec \<Rightarrow> outcome \<times> 'w exec" where
  "ml_Fatal ml level msg payload s =
     (case (if level = TRACE \<or> level = DEBUG \<or> level = INFO \<or> level = WARN \<or> level = ERROR
               \<or> level = FATAL
            then range_Log ml 0 payload s
            else (Returned, s)) of
        (Returned, s') \<Rightarrow> (Panicked (PanicPayload payload), s')
      | (Panicked v, s') \<Rightarrow> (Panicked v, s'))"

fun range_BenchmarkInfo ::
  "('w, 'f) SemanticLogger list \<Rightarrow> nat \<Rightarrow> LogLevel \<Rightarrow> string \<Rightarrow> 'f \<Rightarrow> 'w exec
     \<Rightarrow> outcome \<times> 'w exec" where
  "range_BenchmarkInfo [] i level msg f s = (Returned, s)"
| "range_BenchmarkInfo (lgr # rest) i level msg f s =
     (case sl_BenchmarkInfo lgr level msg f (world s) of
        (Returned, w) \<Rightarrow>
          range_BenchmarkInfo rest (Suc i) level msg f
            \<lparr>calls = calls s @ [CallBenchmarkInfo i level msg], world = w\<rparr>
      | (Panicked v, w) \<Rightarrow>
          (Panicked v, \<lparr>calls = calls s @ [CallBenchmarkInfo i level msg], world = w\<rparr>))"

definition ml_BenchmarkInfo ::
  "('w, 'f) MultiSemanticLogger \<Rightarrow> LogLevel \<Rightarrow> string \<Rightarrow> 'f \<Rightarrow> 'w exec \<Rightarrow> outcome \<times> 'w exec" where
  "ml_BenchmarkInfo ml level msg f s = range_BenchmarkInfo ml 0 level msg f s"

subsection \<open>Sinks and inputs for concrete runs\<close>

text \<open>
  Two kinds of sink over a world that is a heap of payloads and a journal of sink names.
  The first writes its name to the journal and returns; its \<^verbatim>\<open>Fatal\<close> panics with the
  payload, as the interface asks. The second panics in every method.
\<close>

record journal_world =
  heap :: "addr \<rightharpoonup> LogPayload"
  journal :: "string list"

definition journal_sink :: "string \<Rightarrow> (journal_world, unit) SemanticLogger" where
  "journal_sink n =
     \<lparr>sl_Log = (\<lambda>payload w. (Returned, w\<lparr>journal := journal w @ [n]\<rparr>)),
      sl_Fatal = (\<lambda>payload w. (Panicked (PanicPayload payload), w\<lparr>journal := journal w @ [n]\<rparr>)),
      sl_BenchmarkInfo = (\<lambda>level msg f w. (Returned, w\<lparr>journal := journal w @ [n]\<rparr>))\<rparr>"

definition failing_sink :: "string \<Rightarrow> (journal_world, unit) SemanticLogger" where
  "failing_sink n =
     \<lparr>sl_Log = (\<lambda>payload w. (Panicked (PanicOther n), w)),
      sl_Fatal = (\<lambda>payload w. (Panicked (PanicOther n), w)),
      sl_BenchmarkInfo = (\<lambda>level msg f w. (Panicked (PanicOther n), w))\<rparr>"

text \<open>
  A process environment, a world holding one payload at address 0, and a stack of three
  frames: \<^verbatim>\<open>genStacktrace\<close> called from \<^verbatim>\<open>main.main\<close>, called from the run-time's
  \<^verbatim>\<open>main\<close>.
\<close>

definition example_env :: os_env where
  "example_env =
     \<lparr>os_Args = [''/usr/bin/app''], os_Getpid = 4242, time_Now = 1700000000,
      os_Hostname = (''host1'', None)\<rparr>"

definition example_world :: journal_world where
  "example_world = \<lparr>heap = [0 \<mapsto> LogPayload_zero\<lparr>Message := ''m''\<rparr>], journal = []\<rparr>"

definition example_runtime :: runtime where
  "example_runtime =
     \<lparr>stack = [\<lparr>fr_pc = 30, fr_file = ''/src/semantic_logger.go'', fr_line = 227\<rparr>,
               \<lparr>fr_pc = 20, fr_file = ''/src/main.go'', fr_line = 10\<rparr>,
               \<lparr>fr_pc = 10, fr_file = ''/go/proc.go'', fr_line = 250\<rparr>],
      funcs = [30 \<mapsto> ''skynet.genStacktrace'', 20 \<mapsto> ''main.main'',
               10 \<mapsto> ''runtime.main'']\<rparr>"

section \<open>Properties of the severity levels\<close>

lemmas level_defs = TRACE_def DEBUG_def INFO_def WARN_def ERROR_def FATAL_def

text \<open>
  C5. \<^verbatim>\<open>LessSevereThan\<close> is the strict order of the ordinals: for any two levels,
  standard or custom, \<open>A\<close> is less severe than \<open>B\<close> exactly when the (signed) ordinal of
  \<open>A\<close> is below that of \<open>B\<close>; the six standard levels have the ordinals 0 to 5 and so
  are ordered TRACE < DEBUG < INFO < WARN < ERROR < FATAL.
\<close>

theorem LessSevereThan_ordinal:
  "(\<forall>a b. LessSevereThan a b = (sint a < sint b))
   \<and> map sint LogLevels = [0, 1, 2, 3, 4, 5]
   \<and> LessSevereThan TRACE DEBUG \<and> LessSevereThan DEBUG INFO \<and> LessSevereThan INFO WARN
   \<and> LessSevereThan WARN ERROR \<and> LessSevereThan ERROR FATAL
   \<and> [(a, b). a \<leftarrow> LogLevels, b \<leftarrow> LogLevels, LessSevereThan a b] =
       [(TRACE, DEBUG), (TRACE, INFO), (TRACE, WARN), (TRACE, ERROR), (TRACE, FATAL),
        (DEBUG, INFO), (DEBUG, WARN), (DEBUG, ERROR), (DEBUG, FATAL),
        (INFO, WARN), (INFO, ERROR), (INFO, FATAL),
        (WARN, ERROR), (WARN, FATAL),
        (ERROR, FATAL)]"
  by (simp add: LessSevereThan_def LogLevels_def level_defs)

text \<open>
  C7. \<^verbatim>\<open>String\<close> is total: each standard level is rendered as its name, and every
  other level as \<open>CUSTOM\<close>.
\<close>

theorem level_String_total:
  "level_String TRACE = ''TRACE'' \<and> level_String DEBUG = ''DEBUG''
   \<and> level_String INFO = ''INFO'' \<and> level_String WARN = ''WARN''
   \<and> level_String ERROR = ''ERROR'' \<and> level_String FATAL = ''FATAL''
   \<and> (\<forall>level. level \<notin> set LogLevels \<longrightarrow> level_String level = ''CUSTOM'')"
  by (simp add: level_String_def LogLevels_def level_defs)

theorem level_String_total_witness:
  "(42 :: LogLevel) \<notin> set LogLevels \<and> level_String 42 = ''CUSTOM''
   \<and> level_String (- 1) = ''CUSTOM''"
proof -
  have a: "(42 :: LogLevel) \<notin> set LogLevels" and b: "(- 1 :: LogLevel) \<notin> set LogLevels"
    by (simp_all add: LogLevels_def level_defs)
  from level_String_total a b show ?thesis by blast
qed

section \<open>Properties of the record\<close>

text \<open>
  C8. \<^verbatim>\<open>SetTags\<close> replaces the tag sequence of the record by its arguments: the tags
  afterwards are exactly the arguments, a second call discards what the first one set,
  and after \<^verbatim>\<open>SetTags("a","b")\<close> and \<^verbatim>\<open>SetTags("c")\<close> the tags are exactly \<open>["c"]\<close>.
\<close>

theorem SetTags_replaces:
  "Tags (SetTags tags payload) = tags
   \<and> SetTags tags (SetTags tags0 payload) = SetTags tags payload
   \<and> Tags (SetTags [''c''] (SetTags [''a'', ''b''] payload)) = [''c'']"
  by (simp add: SetTags_def)

text \<open>
  C6. For every record, \<^verbatim>\<open>Exception\<close> returns the single string made of the message,
  \<open>" -- panic: "\<close>, the message again, a newline, and the backtrace with one frame per
  line; for the message \<open>boom\<close> and the backtrace \<open>["f.go:10 g()", "f.go:20 h()"]\<close> that is
  \<open>"boom -- panic: boom\nf.go:10 g()\nf.go:20 h()"\<close>.
\<close>

theorem Exception_rendering:
  "Exception payload =
     Some (Message payload @ '' -- panic: '' @ Message payload @ ''\<newline>''
           @ strings_Join (Backtrace payload) ''\<newline>'')
   \<and> Exception (LogPayload_zero\<lparr>Message := ''boom'',
                   Backtrace := [''f.go:10 g()'', ''f.go:20 h()'']\<rparr>)
     = Some ''boom -- panic: boom\<newline>f.go:10 g()\<newline>f.go:20 h()''"
  by (simp add: Exception_def fmt_verb_def)

text \<open>
  C2, as the code has it. \<^verbatim>\<open>setKnownFields\<close>, whenever it is invoked on a record, sets
  \<^verbatim>\<open>Application\<close> to \<^verbatim>\<open>os.Args[0]\<close> if it was empty and leaves it otherwise, \<^verbatim>\<open>PID\<close> to
  the process id, \<^verbatim>\<open>Time\<close> to the current time and \<^verbatim>\<open>HostName\<close> to the name that the
  host-name lookup returned; an error of the lookup is printed to the standard logger
  and not raised. The only panic is the indexing \<^verbatim>\<open>os.Args[0]\<close> when both
  \<^verbatim>\<open>Application\<close> and \<^verbatim>\<open>os.Args\<close> are empty. The dispatcher's \<^verbatim>\<open>Log\<close> does not invoke
  this step: with no sink it changes nothing, and with one sink the world afterwards is
  the one that sink's \<^verbatim>\<open>Log\<close> left.
\<close>

theorem setKnownFields_fills:
  "setKnownFields env payload =
     (if Application payload = [] \<and> os_Args env = [] then Inl PanicIndexOutOfRange
      else Inr (payload\<lparr>Application :=
                          (if Application payload = [] then hd (os_Args env)
                           else Application payload),
                        PID := os_Getpid env, Time := time_Now env,
                        HostName := fst (os_Hostname env)\<rparr>,
                (case snd (os_Hostname env) of
                   None \<Rightarrow> []
                 | Some e \<Rightarrow> [(''Error getting hostname: %v\<newline>'', [AError e])])))
   \<and> ml_Log [] level msg p s = (Returned, s)
   \<and> ml_Log [lgr] level msg p s =
       (fst (sl_Log lgr p (world s)),
        \<lparr>calls = calls s @ [CallLog 0 p], world = snd (sl_Log lgr p (world s))\<rparr>)"
proof -
  have fields: "setKnownFields env payload =
     (if Application payload = [] \<and> os_Args env = [] then Inl PanicIndexOutOfRange
      else Inr (payload\<lparr>Application :=
                          (if Application payload = [] then hd (os_Args env)
                           else Application payload),
                        PID := os_Getpid env, Time := time_Now env,
                        HostName := fst (os_Hostname env)\<rparr>,
                (case snd (os_Hostname env) of
                   None \<Rightarrow> []
                 | Some e \<Rightarrow> [(''Error getting hostname: %v\<newline>'', [AError e])])))"
    by (cases "os_Args env"; cases "os_Hostname env") (simp_all add: setKnownFields_def)
  have none: "ml_Log [] level msg p s = (Returned, s)"
    by (simp add: ml_Log_def)
  have one: "ml_Log [lgr] level msg p s =
       (fst (sl_Log lgr p (world s)),
        \<lparr>calls = calls s @ [CallLog 0 p], world = snd (sl_Log lgr p (world s))\<rparr>)"
    by (cases "sl_Log lgr p (world s)"; cases "fst (sl_Log lgr p (world s))")
       (simp_all add: ml_Log_def)
  from fields none one show ?thesis by (intro conjI)
qed

text \<open>
  The record at address 0 of \<open>example_world\<close> is dispatched through \<^verbatim>\<open>Log\<close>, once to a
  dispatcher without sinks and once to a dispatcher with one sink that returns. After
  either dispatch the record is what it was: none of \<^verbatim>\<open>Application\<close>, \<^verbatim>\<open>PID\<close>, \<^verbatim>\<open>Time\<close>
  and \<^verbatim>\<open>HostName\<close> has the value of the process environment.
\<close>

theorem ml_Log_does_not_finalize:
  "heap (world (snd (ml_Log (NewMultiSemanticLogger
                              ([] :: (journal_world, unit) SemanticLogger list))
                      INFO ''m'' 0 \<lparr>calls = [], world = example_world\<rparr>))) 0
     = Some (LogPayload_zero\<lparr>Message := ''m''\<rparr>)
   \<and> heap (world (snd (ml_Log (NewMultiSemanticLogger [journal_sink ''S1''])
                      INFO ''m'' 0 \<lparr>calls = [], world = example_world\<rparr>))) 0
     = Some (LogPayload_zero\<lparr>Message := ''m''\<rparr>)
   \<and> Application (LogPayload_zero\<lparr>Message := ''m''\<rparr>) \<noteq> hd (os_Args example_env)
   \<and> PID (LogPayload_zero\<lparr>Message := ''m''\<rparr>) \<noteq> os_Getpid example_env
   \<and> Time (LogPayload_zero\<lparr>Message := ''m''\<rparr>) \<noteq> time_Now example_env
   \<and> HostName (LogPayload_zero\<lparr>Message := ''m''\<rparr>) \<noteq> fst (os_Hostname example_env)"
  by (simp add: ml_Log_def NewMultiSemanticLogger_def journal_sink_def example_world_def
      example_env_def LogPayload_zero_def)

section \<open>Properties of the stack walk\<close>

lemma genStacktrace_loop_eq:
  "genStacktrace_loop rt skip acc =
     Some (acc @ map (\<lambda>fr. fr_file fr @ '':'' @ fmt_d (fr_line fr) @ '' ''
                         @ Func_Name (funcs rt (fr_pc fr)) @ ''()\<newline>'')
                   (drop skip (stack rt)))"
proof (induction rt skip acc rule: genStacktrace_loop.induct)
  case (1 rt skip stacktrace)
  show ?case
  proof (cases "skip < length (stack rt)")
    case True
    with "1.IH" show ?thesis
      by (subst genStacktrace_loop.simps)
         (simp add: runtime_Caller_def runtime_FuncForPC_def fmt_verb_def Let_def
            Cons_nth_drop_Suc [symmetric])
  next
    case False
    then show ?thesis
      by (subst genStacktrace_loop.simps) (simp add: runtime_Caller_def)
  qed
qed

lemma fmt_d_examples: "fmt_d 10 = ''10''" "fmt_d 250 = ''250''"
  by (simp_all add: fmt_d_def nat_decimal.simps digit_char_def)

text \<open>
  C4, as the code has it. \<^verbatim>\<open>genStacktrace\<close> returns one descriptor for every frame above
  its own, the oldest caller last, each of the form \<open>file:line functionName()\<close> followed
  by a newline; the walk ends when \<^verbatim>\<open>runtime.Caller\<close> reports that no frame is left,
  so a stack of \<open>N\<close> frames gives \<open>N - 1\<close> descriptors.
\<close>

theorem genStacktrace_descriptors:
  "genStacktrace rt =
     Some (map (\<lambda>fr. fr_file fr @ '':'' @ fmt_d (fr_line fr) @ '' ''
                      @ Func_Name (runtime_FuncForPC rt (fr_pc fr)) @ ''()\<newline>'')
               (drop 1 (stack rt)))
   \<and> map_option length (genStacktrace rt) = Some (length (stack rt) - 1)
   \<and> runtime_Caller rt (length (stack rt)) = None"
  by (simp add: genStacktrace_def genStacktrace_loop_eq runtime_FuncForPC_def
      runtime_Caller_def)

text \<open>
  On the stack of \<open>example_runtime\<close> the two descriptors end in a newline: they are not
  the strings \<open>/src/main.go:10 main.main()\<close> and \<open>/go/proc.go:250 runtime.main()\<close>.
\<close>

theorem genStacktrace_trailing_newline:
  "genStacktrace example_runtime =
     Some [''/src/main.go:10 main.main()\<newline>'', ''/go/proc.go:250 runtime.main()\<newline>'']
   \<and> genStacktrace example_runtime \<noteq>
     Some [''/src/main.go:10 main.main()'', ''/go/proc.go:250 runtime.main()'']"
  by (simp add: genStacktrace_def genStacktrace_loop_eq example_runtime_def Func_Name_def
      fmt_d_examples)

section \<open>Properties of the dispatcher\<close>

text \<open>
  The loop over sinks that all return: every sink is called once, in order, with the
  same pointer, and the world is handed from each sink to the next.
\<close>

lemma range_Log_returns:
  assumes "\<forall>lgr \<in> set ml. \<forall>w. fst (sl_Log lgr payload w) = Returned"
  shows "range_Log ml i payload s =
     (Returned, \<lparr>calls = calls s @ map (\<lambda>k. CallLog k payload) [i ..< i + length ml],
                 world = foldl (\<lambda>w lgr. snd (sl_Log lgr payload w)) (world s) ml\<rparr>)"
  using assms
proof (induction ml arbitrary: i s)
  case Nil
  then show ?case by simp
next
  case (Cons lgr rest)
  have "fst (sl_Log lgr payload (world s)) = Returned"
    using Cons.prems by simp
  then obtain w where w: "sl_Log lgr payload (world s) = (Returned, w)"
    by (cases "sl_Log lgr payload (world s)") auto
  have "\<forall>l \<in> set rest. \<forall>w. fst (sl_Log l payload w) = Returned"
    using Cons.prems by simp
  then have IH: "range_Log rest (Suc i) payload s' =
     (Returned, \<lparr>calls = calls s' @ map (\<lambda>k. CallLog k payload) [Suc i ..< Suc i + length rest],
                 world = foldl (\<lambda>w lgr. snd (sl_Log lgr payload w)) (world s') rest\<rparr>)" for s'
    by (rule Cons.IH)
  have upt: "[i ..< i + length (lgr # rest)] = i # [Suc i ..< Suc i + length rest]"
    by (simp add: upt_rec)
  show ?case
    unfolding upt by (simp add: w IH)
qed

text \<open>
  Whatever the sinks do, the calls of the loop are \<^verbatim>\<open>Log\<close> calls on an initial stretch of
  the sinks, once each and in order: a panic of a sink cuts the loop short, and no sink
  is called twice or through \<^verbatim>\<open>Fatal\<close>.
\<close>

lemma range_Log_calls_prefix:
  "\<exists>n \<le> length ml. calls (snd (range_Log ml i payload s)) =
       calls s @ map (\<lambda>k. CallLog k payload) [i ..< i + n]"
proof (induction ml arbitrary: i s)
  case Nil
  then show ?case by simp
next
  case (Cons lgr rest)
  obtain r w where r: "sl_Log lgr payload (world s) = (r, w)"
    by (cases "sl_Log lgr payload (world s)")
  let ?s' = "\<lparr>calls = calls s @ [CallLog i payload], world = w\<rparr>"
  show ?case
  proof (cases r)
    case Returned
    from Cons.IH [of "Suc i" ?s'] obtain n where n: "n \<le> length rest"
      "calls (snd (range_Log rest (Suc i) payload ?s')) =
         calls ?s' @ map (\<lambda>k. CallLog k payload) [Suc i ..< Suc i + n]"
      by blast
    have upt: "[i ..< i + Suc n] = i # [Suc i ..< Suc i + n]"
      by (simp add: upt_rec)
    have "calls (snd (range_Log (lgr # rest) i payload s)) =
        calls s @ map (\<lambda>k. CallLog k payload) [i ..< i + Suc n]"
      unfolding upt using n(2) by (simp add: r Returned)
    with n(1) show ?thesis
      by (intro exI [of _ "Suc n"]) simp
  next
    case (Panicked v)
    have upt: "[i ..< i + Suc 0] = [i]"
      by simp
    have "calls (snd (range_Log (lgr # rest) i payload s)) =
        calls s @ map (\<lambda>k. CallLog k payload) [i ..< i + Suc 0]"
      unfolding upt by (simp add: r Panicked)
    then show ?thesis
      by (intro exI [of _ "Suc 0"]) simp
  qed
qed

text \<open>
  A sink that panics in \<^verbatim>\<open>Log\<close> ends the dispatch: the sinks after it are not called,
  and the panic that leaves \<^verbatim>\<open>Log\<close> or \<^verbatim>\<open>Fatal\<close> is the sink's own.
\<close>

lemma sink_panic_propagates:
  "ml_Log [journal_sink ''S1'', failing_sink ''S2'', journal_sink ''S3''] INFO ''m'' 0
      \<lparr>calls = [], world = example_world\<rparr> =
     (Panicked (PanicOther ''S2''), \<lparr>calls = [CallLog 0 0, CallLog 1 0],
                 world = example_world\<lparr>journal := [''S1'']\<rparr>\<rparr>)"
  "ml_Fatal [journal_sink ''S1'', failing_sink ''S2'', journal_sink ''S3''] INFO ''m'' 0
      \<lparr>calls = [], world = example_world\<rparr> =
     (Panicked (PanicOther ''S2''), \<lparr>calls = [CallLog 0 0, CallLog 1 0],
                 world = example_world\<lparr>journal := [''S1'']\<rparr>\<rparr>)"
  by (simp_all add: ml_Fatal_def ml_Log_def level_defs journal_sink_def failing_sink_def
      example_world_def)

text \<open>
  \<^verbatim>\<open>Fatal\<close> at a standard level, with sinks that return: all sinks are called through
  \<^verbatim>\<open>Log\<close>, then the dispatcher panics with the payload. At any other level no sink is
  called before the panic.
\<close>

lemma ml_Fatal_standard_level:
  assumes "level \<in> set LogLevels"
    and "\<forall>lgr \<in> set ml. \<forall>w. fst (sl_Log lgr payload w) = Returned"
  shows "ml_Fatal ml level msg payload s =
     (Panicked (PanicPayload payload),
      \<lparr>calls = calls s @ map (\<lambda>i. CallLog i payload) [0 ..< length ml],
       world = foldl (\<lambda>w lgr. snd (sl_Log lgr payload w)) (world s) ml\<rparr>)"
proof -
  from assms(1) have "level = TRACE \<or> level = DEBUG \<or> level = INFO \<or> level = WARN
      \<or> level = ERROR \<or> level = FATAL"
    by (auto simp: LogLevels_def)
  then show ?thesis
    by (simp add: ml_Fatal_def range_Log_returns [OF assms(2)])
qed

lemma ml_Fatal_custom_level:
  assumes "level \<notin> set LogLevels"
  shows "ml_Fatal ml level msg payload s = (Panicked (PanicPayload payload), s)"
  using assms by (simp add: ml_Fatal_def LogLevels_def)

text \<open>
  C3. For every dispatcher and every level, standard or custom, \<^verbatim>\<open>Log\<close> hands the same
  payload pointer to the \<^verbatim>\<open>Log\<close> of each sink exactly once, in the order of the sink
  sequence, and touches neither the record nor anything else itself: the world
  afterwards is the one the sinks produced one after the other. The sinks are taken to
  return from \<^verbatim>\<open>Log\<close>, as the contract of a sink asks.
\<close>

theorem ml_Log_delivers:
  assumes "\<forall>lgr \<in> set ml. \<forall>w. fst (sl_Log lgr payload w) = Returned"
  shows "ml_Log ml level msg payload s =
     (Returned, \<lparr>calls = calls s @ map (\<lambda>i. CallLog i payload) [0 ..< length ml],
                 world = foldl (\<lambda>w lgr. snd (sl_Log lgr payload w)) (world s) ml\<rparr>)"
  by (simp add: ml_Log_def range_Log_returns [OF assms])

text \<open>Three sinks, at the level \<^verbatim>\<open>INFO\<close> and at the custom level 77.\<close>

theorem ml_Log_delivers_witness:
  "ml_Log [journal_sink ''S1'', journal_sink ''S2'', journal_sink ''S3''] INFO ''m'' 0
      \<lparr>calls = [], world = example_world\<rparr> =
     (Returned, \<lparr>calls = [CallLog 0 0, CallLog 1 0, CallLog 2 0],
                 world = example_world\<lparr>journal := [''S1'', ''S2'', ''S3'']\<rparr>\<rparr>)
   \<and> ml_Log [journal_sink ''S1'', journal_sink ''S2'', journal_sink ''S3''] 77 ''m'' 0
      \<lparr>calls = [], world = example_world\<rparr> =
     (Returned, \<lparr>calls = [CallLog 0 0, CallLog 1 0, CallLog 2 0],
                 world = example_world\<lparr>journal := [''S1'', ''S2'', ''S3'']\<rparr>\<rparr>)"
proof -
  let ?ml = "[journal_sink ''S1'', journal_sink ''S2'', journal_sink ''S3'']"
  have h: "\<forall>lgr \<in> set ?ml. \<forall>w. fst (sl_Log lgr 0 w) = Returned"
    by (simp add: journal_sink_def)
  have upt3: "[0 ..< 3] = [0, 1, 2 :: nat]"
    by (simp add: upt_rec)
  show ?thesis
    using ml_Log_delivers [OF h, of INFO "''m''" "\<lparr>calls = [], world = example_world\<rparr>"]
      ml_Log_delivers [OF h, of 77 "''m''" "\<lparr>calls = [], world = example_world\<rparr>"]
    by (simp add: journal_sink_def example_world_def upt3)
qed

text \<open>
  C10. \<^verbatim>\<open>Log\<close> and \<^verbatim>\<open>Fatal\<close> never read \<^verbatim>\<open>msg\<close>: two invocations that differ only in
  \<^verbatim>\<open>msg\<close> have the same outcome (return, or panic and its payload), the same sequence
  of sink calls with the same pointer, and the same world.
\<close>

theorem msg_unused:
  "ml_Log ml level msg payload s = ml_Log ml level msg' payload s
   \<and> ml_Fatal ml level msg payload s = ml_Fatal ml level msg' payload s"
  by (simp add: ml_Log_def ml_Fatal_def)

text \<open>
  C1, at a custom level. \<^verbatim>\<open>Fatal\<close> with the level 6 on a dispatcher of two sinks panics
  with the payload and has called no sink: the journal and the call record are empty.
  \<^verbatim>\<open>Log\<close> at the same level, and \<^verbatim>\<open>Fatal\<close> at the level \<^verbatim>\<open>ERROR\<close>, reach both sinks.
\<close>

theorem ml_Fatal_custom_level_skips_sinks:
  "ml_Fatal [journal_sink ''S1'', journal_sink ''S2''] 6 ''m'' 0
      \<lparr>calls = [], world = example_world\<rparr> =
     (Panicked (PanicPayload 0), \<lparr>calls = [], world = example_world\<rparr>)
   \<and> ml_Log [journal_sink ''S1'', journal_sink ''S2''] 6 ''m'' 0
      \<lparr>calls = [], world = example_world\<rparr> =
     (Returned, \<lparr>calls = [CallLog 0 0, CallLog 1 0],
                 world = example_world\<lparr>journal := [''S1'', ''S2'']\<rparr>\<rparr>)
   \<and> ml_Fatal [journal_sink ''S1'', journal_sink ''S2''] ERROR ''m'' 0
      \<lparr>calls = [], world = example_world\<rparr> =
     (Panicked (PanicPayload 0), \<lparr>calls = [CallLog 0 0, CallLog 1 0],
                 world = example_world\<lparr>journal := [''S1'', ''S2'']\<rparr>\<rparr>)"
  by (simp add: ml_Fatal_def ml_Log_def level_defs journal_sink_def example_world_def)

end
